theory Spec2Isabelle
  imports Main
begin

section \<open>Strings\<close>

text \<open>
  A JavaScript string is a sequence of UTF-16 code units; \<open>substring\<close>, \<open>trim\<close> and
  \<open>!==\<close> all work on code units. A string is therefore a list of code-unit values, and
  an ASCII literal of the source is written \<open>str ''...''\<close>.
\<close>

type_synonym jstring = "nat list"

definition str :: "string \<Rightarrow> jstring" where
  "str s = map of_char s"

text \<open>The two arrows of the summary templates, U+2192 and U+2194.\<close>

definition arrow_right :: jstring where
  "arrow_right = [8594]"

definition arrow_both :: jstring where
  "arrow_both = [8596]"

text \<open>Template-literal rendering of a number: \<open>`${i}`\<close> for a loop index.\<close>

fun digits :: "nat \<Rightarrow> jstring" where
  "digits n = (if n < 10 then [48 + n] else digits (n div 10) @ [48 + n mod 10])"

declare digits.simps [simp del]

text \<open>
  \<open>String.prototype.trim\<close> removes the code units of WhiteSpace and LineTerminator
  from both ends.
\<close>

definition is_ws :: "nat \<Rightarrow> bool" where
  "is_ws c \<longleftrightarrow> c = 9 \<or> c = 10 \<or> c = 11 \<or> c = 12 \<or> c = 13 \<or> c = 32 \<or> c = 160
     \<or> c = 5760 \<or> (8192 \<le> c \<and> c \<le> 8202) \<or> c = 8232 \<or> c = 8233 \<or> c = 8239
     \<or> c = 8287 \<or> c = 12288 \<or> c = 65279"

definition trim :: "jstring \<Rightarrow> jstring" where
  "trim s = rev (dropWhile is_ws (rev (dropWhile is_ws s)))"

text \<open>\<open>s.substring(0, 50)\<close>.\<close>

definition substring_0_50 :: "jstring \<Rightarrow> jstring" where
  "substring_0_50 s = take 50 s"

text \<open>\<open>parts.join("\n")\<close>.\<close>

fun join_nl :: "jstring list \<Rightarrow> jstring" where
  "join_nl [] = []"
| "join_nl [l] = l"
| "join_nl (l # m # ls) = l @ [10] @ join_nl (m # ls)"

text \<open>
  The lines of a string: the pieces between newline code units; the empty string has no
  line.
\<close>

fun split_nl :: "jstring \<Rightarrow> jstring \<Rightarrow> jstring list" where
  "split_nl cur [] = [cur]"
| "split_nl cur (c # cs) = (if c = 10 then cur # split_nl [] cs else split_nl (cur @ [c]) cs)"

definition lines_of :: "jstring \<Rightarrow> jstring list" where
  "lines_of s = (if s = [] then [] else split_nl [] s)"

section \<open>The DOM nodes the comparison reads\<close>

text \<open>
  Of a DOM node the comparison reads \<open>nodeType\<close>, \<open>nodeName\<close>, \<open>textContent\<close>,
  \<open>attributes\<close> and \<open>childNodes\<close>. An element carries its (upper-case) node name, its
  attributes in document order and its child nodes.
\<close>

datatype node =
    Element jstring "(jstring \<times> jstring) list" "node list"
  | Text jstring
  | CDATASection jstring
  | ProcessingInstruction jstring jstring
  | Comment jstring

fun nodeType :: "node \<Rightarrow> nat" where
  "nodeType (Element _ _ _) = 1"
| "nodeType (Text _) = 3"
| "nodeType (CDATASection _) = 4"
| "nodeType (ProcessingInstruction _ _) = 7"
| "nodeType (Comment _) = 8"

fun nodeName :: "node \<Rightarrow> jstring" where
  "nodeName (Element tag _ _) = tag"
| "nodeName (Text _) = str ''#text''"
| "nodeName (CDATASection _) = str ''#cdata-section''"
| "nodeName (ProcessingInstruction target _) = target"
| "nodeName (Comment _) = str ''#comment''"

text \<open>
  \<open>textContent\<close>: the data of a character-data node; for an element the concatenation
  of the data of its text descendants (comments and processing instructions left out).
\<close>

fun textContent :: "node \<Rightarrow> jstring"
  and descendant_text :: "node \<Rightarrow> jstring" where
  "textContent (Element _ _ cs) = concat (map descendant_text cs)"
| "textContent (Text d) = d"
| "textContent (CDATASection d) = d"
| "textContent (ProcessingInstruction _ d) = d"
| "textContent (Comment d) = d"
| "descendant_text (Element _ _ cs) = concat (map descendant_text cs)"
| "descendant_text (Text d) = d"
| "descendant_text (CDATASection d) = d"
| "descendant_text (ProcessingInstruction _ _) = []"
| "descendant_text (Comment _) = []"

text \<open>The node kinds of the specification's data model.\<close>

datatype kind = KElement | KText | KOther

fun kind_of :: "node \<Rightarrow> kind" where
  "kind_of (Element _ _ _) = KElement"
| "kind_of (Text _) = KText"
| "kind_of _ = KOther"

section \<open>Change records\<close>

text \<open>The interface \<open>SimpleDiff\<close>: every field but \<open>action\<close> is optional.\<close>

record simple_diff =
  action :: jstring
  element :: "jstring option"
  content :: "jstring option"
  oldValue :: "jstring option"
  newValue :: "jstring option"
  path :: "jstring option"

definition mk_diff :: "jstring \<Rightarrow> simple_diff" where
  "mk_diff a = \<lparr>action = a, element = None, content = None, oldValue = None,
     newValue = None, path = None\<rparr>"

section \<open>Attribute maps\<close>

text \<open>
  \<open>new Map(attrs.map((a) => [a.name, a.value]))\<close>: a key keeps the place of its first
  insertion and the value of its last. The map is kept as the list of its entries in
  iteration order.
\<close>

fun map_set :: "(jstring \<times> jstring) list \<Rightarrow> jstring \<Rightarrow> jstring \<Rightarrow> (jstring \<times> jstring) list" where
  "map_set [] k v = [(k, v)]"
| "map_set ((k', v') # m) k v = (if k' = k then (k, v) # m else (k', v') # map_set m k v)"

definition new_Map :: "(jstring \<times> jstring) list \<Rightarrow> (jstring \<times> jstring) list" where
  "new_Map entries = foldl (\<lambda>m (k, v). map_set m k v) [] entries"

definition map_has :: "(jstring \<times> jstring) list \<Rightarrow> jstring \<Rightarrow> bool" where
  "map_has m k \<longleftrightarrow> map_of m k \<noteq> None"

definition map_get :: "(jstring \<times> jstring) list \<Rightarrow> jstring \<Rightarrow> jstring option" where
  "map_get m k = map_of m k"

text \<open>\<open>`${name}="${value}"`\<close>; the value of \<open>Map.get\<close> on a missing key renders as undefined.\<close>

definition tpl :: "jstring option \<Rightarrow> jstring" where
  "tpl v = (case v of None \<Rightarrow> str ''undefined'' | Some s \<Rightarrow> s)"

definition attr_text :: "jstring \<Rightarrow> jstring option \<Rightarrow> jstring" where
  "attr_text name v = name @ str ''=\"'' @ tpl v @ str ''\"''"

section \<open>extractStructuralDifferences\<close>

text \<open>The loop over \<open>attrMap2\<close>: added and modified attributes.\<close>

fun added_modified :: "jstring \<Rightarrow> jstring \<Rightarrow> (jstring \<times> jstring) list \<Rightarrow> (jstring \<times> jstring) list
    \<Rightarrow> simple_diff list" where
  "added_modified p tag m1 [] = []"
| "added_modified p tag m1 ((name, v) # m2) =
     (if \<not> map_has m1 name then
        [(mk_diff (str ''addAttribute''))
           \<lparr>element := Some tag, content := Some (attr_text name (Some v)), path := Some p\<rparr>]
      else if map_get m1 name \<noteq> Some v then
        [(mk_diff (str ''modifyAttribute''))
           \<lparr>element := Some tag, oldValue := Some (attr_text name (map_get m1 name)),
             newValue := Some (attr_text name (Some v)), path := Some p\<rparr>]
      else [])
     @ added_modified p tag m1 m2"

text \<open>The loop over \<open>attrMap1\<close>: removed attributes.\<close>

fun removed :: "jstring \<Rightarrow> jstring \<Rightarrow> (jstring \<times> jstring) list \<Rightarrow> (jstring \<times> jstring) list
    \<Rightarrow> simple_diff list" where
  "removed p tag m2 [] = []"
| "removed p tag m2 ((name, v) # m1) =
     (if \<not> map_has m2 name then
        [(mk_diff (str ''removeAttribute''))
           \<lparr>element := Some tag, content := Some (attr_text name (Some v)), path := Some p\<rparr>]
      else [])
     @ removed p tag m2 m1"

text \<open>\<open>`${path}/${el1.nodeName}[${i}]`\<close>.\<close>

definition child_path :: "jstring \<Rightarrow> jstring \<Rightarrow> nat \<Rightarrow> jstring" where
  "child_path p tag i = p @ str ''/'' @ tag @ str ''['' @ digits i @ str '']''"

text \<open>
  The comparison. \<open>compare_children p tag i cs1 cs2\<close> is the loop over the child
  indices from \<open>i\<close> on, with \<open>cs1\<close> and \<open>cs2\<close> the children of the two elements from
  index \<open>i\<close> on: an index past the end of an array reads \<open>undefined\<close>, which is the
  empty list here.
\<close>

fun extractStructuralDifferences :: "node \<Rightarrow> node \<Rightarrow> jstring \<Rightarrow> simple_diff list"
  and compare_children :: "jstring \<Rightarrow> jstring \<Rightarrow> nat \<Rightarrow> node list \<Rightarrow> node list \<Rightarrow> simple_diff list"
where
  "extractStructuralDifferences node1 node2 p =
     (if nodeType node1 \<noteq> nodeType node2 then
        [(mk_diff (str ''replaceNode''))
           \<lparr>oldValue := Some (nodeName node1), newValue := Some (nodeName node2),
             path := Some p\<rparr>]
      else (case (node1, node2) of
        (Text d1, Text d2) \<Rightarrow>
          (let text1 = trim d1; text2 = trim d2 in
           if text1 \<noteq> text2 \<and> text1 \<noteq> [] \<and> text2 \<noteq> [] then
             [(mk_diff (str ''modifyTextElement''))
                \<lparr>oldValue := Some text1, newValue := Some text2, path := Some p\<rparr>]
           else [])
      | (Element tag1 attrs1 children1, Element tag2 attrs2 children2) \<Rightarrow>
          (if tag1 \<noteq> tag2 then
             [(mk_diff (str ''replaceElement''))
                \<lparr>oldValue := Some tag1, newValue := Some tag2, path := Some p\<rparr>]
           else
             (let attrMap1 = new_Map attrs1; attrMap2 = new_Map attrs2 in
              added_modified p tag1 attrMap1 attrMap2
              @ removed p tag1 attrMap2 attrMap1
              @ compare_children p tag1 0 children1 children2))
      | _ \<Rightarrow> []))"
| "compare_children p tag i [] [] = []"
| "compare_children p tag i [] (child2 # cs2) =
     (mk_diff (str ''addElement''))
        \<lparr>element := Some (nodeName child2),
          content := Some (substring_0_50 (textContent child2)),
          path := Some (child_path p tag i)\<rparr>
     # compare_children p tag (i + 1) [] cs2"
| "compare_children p tag i (child1 # cs1) [] =
     (mk_diff (str ''removeElement''))
        \<lparr>element := Some (nodeName child1),
          content := Some (substring_0_50 (textContent child1)),
          path := Some (child_path p tag i)\<rparr>
     # compare_children p tag (i + 1) cs1 []"
| "compare_children p tag i (child1 # cs1) (child2 # cs2) =
     extractStructuralDifferences child1 child2 (child_path p tag i)
     @ compare_children p tag (i + 1) cs1 cs2"

declare extractStructuralDifferences.simps [simp del]

section \<open>generateDiffSummary\<close>

text \<open>
  The body of the loop: the line pushed for one record. A missing field renders as
  undefined in a template literal; \<open>diff.content ? ... : ""\<close> takes the second branch
  for a missing and for an empty content.
\<close>

definition content_suffix :: "jstring option \<Rightarrow> jstring" where
  "content_suffix c =
     (case c of None \<Rightarrow> [] | Some s \<Rightarrow> if s = [] then [] else str '': \"'' @ s @ str ''\"'')"

definition summary_line :: "simple_diff \<Rightarrow> jstring" where
  "summary_line d =
     (if action d = str ''addElement'' then
        str ''+ Added: <'' @ tpl (element d) @ str ''>'' @ content_suffix (content d)
          @ str '' at '' @ tpl (path d)
      else if action d = str ''removeElement'' then
        str ''- Removed: <'' @ tpl (element d) @ str ''>'' @ content_suffix (content d)
          @ str '' at '' @ tpl (path d)
      else if action d = str ''modifyTextElement'' then
        str ''~ Modified text: \"'' @ tpl (oldValue d) @ str ''\" '' @ arrow_right
          @ str '' \"'' @ tpl (newValue d) @ str ''\"''
      else if action d = str ''addAttribute'' then
        str ''+ Added attribute on <'' @ tpl (element d) @ str ''>: '' @ tpl (content d)
      else if action d = str ''removeAttribute'' then
        str ''- Removed attribute on <'' @ tpl (element d) @ str ''>: '' @ tpl (content d)
      else if action d = str ''modifyAttribute'' then
        str ''~ Modified attribute on <'' @ tpl (element d) @ str ''>: '' @ tpl (oldValue d)
          @ str '' '' @ arrow_right @ str '' '' @ tpl (newValue d)
      else if action d = str ''replaceElement'' then
        arrow_both @ str '' Replaced <'' @ tpl (oldValue d) @ str ''> with <''
          @ tpl (newValue d) @ str ''> at '' @ tpl (path d)
      else if action d = str ''replaceNode'' then
        arrow_both @ str '' Replaced node '' @ tpl (oldValue d) @ str '' with ''
          @ tpl (newValue d) @ str '' at '' @ tpl (path d)
      else
        str ''? Unknown action: '' @ action d)"

definition summaryParts :: "simple_diff list \<Rightarrow> jstring list" where
  "summaryParts diffs = map summary_line diffs"

definition generateDiffSummary :: "simple_diff list \<Rightarrow> jstring" where
  "generateDiffSummary diffs = join_nl (summaryParts diffs)"

section \<open>extractDiff\<close>

record diff_result =
  diffs :: "simple_diff list"
  count :: nat
  summary :: jstring

text \<open>
  \<open>extractDiff\<close> parses both sources with the DOM library and compares the two body
  elements. The library is not part of the program: \<open>body_of\<close> stands for
  \<open>new JSDOM(html).window.document.body\<close>.
\<close>

definition extractDiff :: "(jstring \<Rightarrow> node) \<Rightarrow> jstring \<Rightarrow> jstring \<Rightarrow> diff_result" where
  "extractDiff body_of html1 html2 =
     (let doc1 = body_of html1;
          doc2 = body_of html2;
          ds = extractStructuralDifferences doc1 doc2 [];
          smry = generateDiffSummary ds
      in \<lparr>diffs = ds, count = length ds, summary = smry\<rparr>)"

section \<open>Notions of the specification\<close>

text \<open>The eight action values the summary knows, and the four whose line ends in the path.\<close>

definition recognized_actions :: "jstring list" where
  "recognized_actions = [str ''addElement'', str ''removeElement'', str ''modifyTextElement'',
     str ''addAttribute'', str ''removeAttribute'', str ''modifyAttribute'',
     str ''replaceElement'', str ''replaceNode'']"

definition located_actions :: "jstring list" where
  "located_actions = [str ''addElement'', str ''removeElement'', str ''replaceElement'',
     str ''replaceNode'']"

definition unlocated_actions :: "jstring list" where
  "unlocated_actions = [str ''modifyTextElement'', str ''addAttribute'', str ''removeAttribute'',
     str ''modifyAttribute'']"

text \<open>
  The paths of the nodes of a tree, as the specification describes them: the root has
  path \<open>p\<close>, and a child adds one segment \<open>/TAG[index]\<close> to the path of its parent,
  with the parent's node name and the child's position among its siblings, counted from
  \<open>base\<close>. The specification's words are \<open>base = 1\<close>.
\<close>

fun node_paths :: "nat \<Rightarrow> jstring \<Rightarrow> node \<Rightarrow> jstring list"
  and children_paths :: "nat \<Rightarrow> jstring \<Rightarrow> jstring \<Rightarrow> nat \<Rightarrow> node list \<Rightarrow> jstring list" where
  "node_paths base p (Element tag attrs cs) = p # children_paths base p tag 0 cs"
| "node_paths base p (Text d) = [p]"
| "node_paths base p (CDATASection d) = [p]"
| "node_paths base p (ProcessingInstruction t d) = [p]"
| "node_paths base p (Comment d) = [p]"
| "children_paths base p tag i [] = []"
| "children_paths base p tag i (c # cs) =
     node_paths base (child_path p tag (base + i)) c @ children_paths base p tag (i + 1) cs"





text \<open>The number of newline code units in a string.\<close>

definition newlines :: "jstring \<Rightarrow> nat" where
  "newlines s = count_list s 10"

section \<open>Example documents\<close>

text \<open>The body elements of the documents the specification names.\<close>

definition li :: "string \<Rightarrow> node" where
  "li t = Element (str ''LI'') [] [Text (str t)]"

definition list_A :: node where
  "list_A = Element (str ''BODY'') [] [Element (str ''UL'') [] [li ''X'', li ''Y'']]"

definition list_B :: node where
  "list_B = Element (str ''BODY'') [] [Element (str ''UL'') [] [li ''NEW'', li ''X'', li ''Y'']]"

definition html_A :: jstring where
  "html_A = str ''<body><h1>Title</h1></body>''"

definition html_B :: jstring where
  "html_B = str ''<body><h1>Title</h1><p>New paragraph</p></body>''"

definition page_A :: node where
  "page_A = Element (str ''BODY'') [] [Element (str ''H1'') [] [Text (str ''Title'')]]"

definition page_B :: node where
  "page_B = Element (str ''BODY'') []
     [Element (str ''H1'') [] [Text (str ''Title'')],
      Element (str ''P'') [] [Text (str ''New paragraph'')]]"

text \<open>
  A stand-in for the DOM library on these two sources: \<open>html_B\<close> parses to the body
  \<open>page_B\<close> and \<open>html_A\<close> to the body \<open>page_A\<close>.
\<close>

definition body_of_pages :: "jstring \<Rightarrow> node" where
  "body_of_pages html = (if html = html_B then page_B else page_A)"

definition link_A :: node where
  "link_A = Element (str ''A'') [(str ''href'', str ''/x'')] []"

definition link_B :: node where
  "link_B = Element (str ''A'') [(str ''href'', str ''/x''), (str ''target'', str ''_blank'')] []"



text \<open>A paragraph whose text runs over two lines, added to an empty body.\<close>

definition html_empty :: jstring where
  "html_empty = str ''<body></body>''"

definition html_two_lines :: jstring where
  "html_two_lines = str ''<body><p>a'' @ [10] @ str ''b</p></body>''"

definition page_empty :: node where
  "page_empty = Element (str ''BODY'') [] []"

definition page_two_lines :: node where
  "page_two_lines = Element (str ''BODY'') []
     [Element (str ''P'') [] [Text (str ''a'' @ [10] @ str ''b'')]]"

text \<open>The same for the two-line paragraph: its source parses to \<open>page_two_lines\<close>.\<close>

definition body_of_two_lines :: "jstring \<Rightarrow> node" where
  "body_of_two_lines html = (if html = html_two_lines then page_two_lines else page_empty)"

definition unknown_record :: simple_diff where
  "unknown_record = (mk_diff (str ''moveElement'')) \<lparr>path := Some (str ''/BODY[0]'')\<rparr>"

definition text_record :: simple_diff where
  "text_record = (mk_diff (str ''modifyTextElement''))
     \<lparr>oldValue := Some (str ''a''), newValue := Some (str ''b''), path := Some (str ''/BODY[0]'')\<rparr>"



section \<open>Evaluation\<close>

lemmas eval_defs = extractStructuralDifferences.simps str_def mk_diff_def child_path_def
  new_Map_def trim_def is_ws_def digits.simps substring_0_50_def map_has_def map_get_def
  attr_text_def tpl_def

section \<open>Kind mismatch\<close>

lemma replaceNode_on_type_mismatch:
  "nodeType a \<noteq> nodeType b \<Longrightarrow>
     extractStructuralDifferences a b p =
       [\<lparr>action = str ''replaceNode'', element = None, content = None,
          oldValue = Some (nodeName a), newValue = Some (nodeName b), path = Some p\<rparr>]"
  by (simp add: extractStructuralDifferences.simps mk_diff_def)

lemma kind_mismatch_nodeType: "kind_of a \<noteq> kind_of b \<Longrightarrow> nodeType a \<noteq> nodeType b"
  by (cases a; cases b) simp_all

text \<open>
  C7. Two nodes of different kinds give exactly one record: \<open>replaceNode\<close> at the current
  path, with the node name of the first node as old value and the node name of the second
  as new value. Nothing below the two nodes is compared.
\<close>

theorem C7_kind_mismatch:
  "kind_of a \<noteq> kind_of b \<Longrightarrow>
     extractStructuralDifferences a b p =
       [\<lparr>action = str ''replaceNode'', element = None, content = None,
          oldValue = Some (nodeName a), newValue = Some (nodeName b), path = Some p\<rparr>]"
  by (rule replaceNode_on_type_mismatch) (rule kind_mismatch_nodeType)

theorem C7_kind_mismatch_witness:
  "kind_of (Text (str ''x'')) \<noteq> kind_of page_B
   \<and> extractStructuralDifferences (Text (str ''x'')) page_B [] =
       [\<lparr>action = str ''replaceNode'', element = None, content = None,
          oldValue = Some (str ''#text''), newValue = Some (str ''BODY''), path = Some []\<rparr>]"
  using C7_kind_mismatch [of "Text (str ''x'')" page_B "[]"] by (simp add: page_B_def)

section \<open>Text nodes\<close>

text \<open>
  C6. Comparing the text nodes Hello and Hello there gives exactly one
  \<open>modifyTextElement\<close> record with the two texts as old and new value; two text nodes of
  which one is empty after trimming give no record.
\<close>

theorem C6_text_nodes:
  "extractStructuralDifferences (Text (str ''Hello'')) (Text (str ''Hello there'')) p =
     [\<lparr>action = str ''modifyTextElement'', element = None, content = None,
        oldValue = Some (str ''Hello''), newValue = Some (str ''Hello there''), path = Some p\<rparr>]
   \<and> (trim s = [] \<or> trim t = [] \<longrightarrow> extractStructuralDifferences (Text s) (Text t) p = [])"
  by (simp add: eval_defs)

theorem C6_text_nodes_witness:
  "trim (str '' '' @ [9, 10]) = []
   \<and> extractStructuralDifferences (Text (str ''Hello'')) (Text (str '' '' @ [9, 10])) [] = []
   \<and> extractStructuralDifferences (Text (str ''Hello'')) (Text []) [] = []"
  using C6_text_nodes [of "[]" "str ''Hello''" "str '' '' @ [9, 10]"]
    C6_text_nodes [of "[]" "str ''Hello''" "[]"]
  by (simp add: trim_def is_ws_def str_def)

section \<open>Positional comparison of children\<close>

text \<open>
  C1. For the list X, Y against the list NEW, X, Y the comparison of the two bodies gives
  three records: the text of the first item changed from X to NEW, the text of the second
  item changed from Y to X, and a last item added at index 2. The first record is the text
  modification in the slot of index 0 and the last one the added child; the result is not
  a single insertion.
\<close>

theorem C1_positional_insertion:
  "extractStructuralDifferences list_A list_B [] =
     [\<lparr>action = str ''modifyTextElement'', element = None, content = None,
        oldValue = Some (str ''X''), newValue = Some (str ''NEW''),
        path = Some (str ''/BODY[0]/UL[0]/LI[0]'')\<rparr>,
      \<lparr>action = str ''modifyTextElement'', element = None, content = None,
        oldValue = Some (str ''Y''), newValue = Some (str ''X''),
        path = Some (str ''/BODY[0]/UL[1]/LI[0]'')\<rparr>,
      \<lparr>action = str ''addElement'', element = Some (str ''LI''), content = Some (str ''Y''),
        oldValue = None, newValue = None, path = Some (str ''/BODY[0]/UL[2]'')\<rparr>]
   \<and> length (extractStructuralDifferences list_A list_B []) = 3"
  by (simp add: list_A_def list_B_def li_def eval_defs)

section \<open>Attributes\<close>

text \<open>
  C8. Comparing the link with one attribute against the link with the added target
  attribute gives exactly one \<open>addAttribute\<close> record with content target="_blank"; the
  comparison the other way round gives exactly one \<open>removeAttribute\<close> record with the
  same content.
\<close>

theorem C8_attribute_symmetry:
  "extractStructuralDifferences link_A link_B p =
     [\<lparr>action = str ''addAttribute'', element = Some (str ''A''),
        content = Some (str ''target=\"_blank\"''), oldValue = None, newValue = None,
        path = Some p\<rparr>]
   \<and> extractStructuralDifferences link_B link_A p =
     [\<lparr>action = str ''removeAttribute'', element = Some (str ''A''),
        content = Some (str ''target=\"_blank\"''), oldValue = None, newValue = None,
        path = Some p\<rparr>]"
  by (simp add: link_A_def link_B_def eval_defs)

section \<open>The end-to-end scenario\<close>

text \<open>
  C3. When the DOM library parses the two sources to the bodies \<open>page_A\<close> and
  \<open>page_B\<close>, \<open>extractDiff\<close> gives exactly one record: \<open>addElement\<close> with element P,
  content New paragraph and path /BODY[1].
\<close>

theorem C3_end_to_end:
  assumes "body_of html_A = page_A" and "body_of html_B = page_B"
  shows "extractDiff body_of html_A html_B =
     \<lparr>diffs =
        [\<lparr>action = str ''addElement'', element = Some (str ''P''),
           content = Some (str ''New paragraph''), oldValue = None, newValue = None,
           path = Some (str ''/BODY[1]'')\<rparr>],
      count = 1,
      summary = str ''+ Added: <P>: \"New paragraph\" at /BODY[1]''\<rparr>"
  using assms
  by (simp add: extractDiff_def Let_def page_A_def page_B_def eval_defs
      generateDiffSummary_def summaryParts_def summary_line_def content_suffix_def)

theorem C3_end_to_end_witness:
  "body_of_pages html_A = page_A \<and> body_of_pages html_B = page_B
   \<and> extractDiff body_of_pages html_A html_B =
     \<lparr>diffs =
        [\<lparr>action = str ''addElement'', element = Some (str ''P''),
           content = Some (str ''New paragraph''), oldValue = None, newValue = None,
           path = Some (str ''/BODY[1]'')\<rparr>],
      count = 1,
      summary = str ''+ Added: <P>: \"New paragraph\" at /BODY[1]''\<rparr>"
proof -
  have a: "body_of_pages html_A = page_A"
    by (simp add: body_of_pages_def html_A_def html_B_def str_def)
  have b: "body_of_pages html_B = page_B"
    by (simp add: body_of_pages_def)
  from a b C3_end_to_end [OF a b] show ?thesis by simp
qed

section \<open>The summary\<close>

text \<open>
  C10. The line of a text or attribute record does not depend on the path of the record,
  and neither does the line of any record whose action is not one of \<open>addElement\<close>,
  \<open>removeElement\<close>, \<open>replaceElement\<close> and \<open>replaceNode\<close>; the line of a record with
  one of these four actions ends in at followed by the path.
\<close>

theorem C10_summary_without_path:
  "(action d \<in> set unlocated_actions \<longrightarrow> summary_line (d\<lparr>path := q\<rparr>) = summary_line d)
   \<and> (action d \<notin> set located_actions \<longrightarrow> summary_line (d\<lparr>path := q\<rparr>) = summary_line d)
   \<and> (action d \<in> set located_actions \<longrightarrow>
        (\<exists>pre. summary_line d = pre @ str '' at '' @ tpl (path d)))"
proof (intro conjI impI)
  assume "action d \<in> set unlocated_actions"
  then show "summary_line (d\<lparr>path := q\<rparr>) = summary_line d"
    by (auto simp add: unlocated_actions_def summary_line_def str_def)
next
  assume "action d \<notin> set located_actions"
  then show "summary_line (d\<lparr>path := q\<rparr>) = summary_line d"
    by (simp add: summary_line_def located_actions_def)
next
  assume "action d \<in> set located_actions"
  then consider "action d = str ''addElement''" | "action d = str ''removeElement''"
    | "action d = str ''replaceElement''" | "action d = str ''replaceNode''"
    by (auto simp add: located_actions_def)
  then show "\<exists>pre. summary_line d = pre @ str '' at '' @ tpl (path d)"
  proof cases
    case 1
    then have "summary_line d =
        (str ''+ Added: <'' @ tpl (element d) @ str ''>'' @ content_suffix (content d))
          @ str '' at '' @ tpl (path d)"
      by (simp add: summary_line_def)
    then show ?thesis by blast
  next
    case 2
    then have "summary_line d =
        (str ''- Removed: <'' @ tpl (element d) @ str ''>'' @ content_suffix (content d))
          @ str '' at '' @ tpl (path d)"
      by (simp add: summary_line_def str_def)
    then show ?thesis by blast
  next
    case 3
    then have "summary_line d =
        (arrow_both @ str '' Replaced <'' @ tpl (oldValue d) @ str ''> with <''
          @ tpl (newValue d) @ str ''>'') @ str '' at '' @ tpl (path d)"
      by (simp add: summary_line_def str_def)
    then show ?thesis by blast
  next
    case 4
    then have "summary_line d =
        (arrow_both @ str '' Replaced node '' @ tpl (oldValue d) @ str '' with ''
          @ tpl (newValue d)) @ str '' at '' @ tpl (path d)"
      by (simp add: summary_line_def str_def)
    then show ?thesis by blast
  qed
qed

theorem C10_summary_without_path_witness:
  "action text_record \<in> set unlocated_actions
   \<and> action text_record \<notin> set located_actions
   \<and> summary_line (text_record\<lparr>path := Some (str ''/BODY[7]/DIV[3]'')\<rparr>) = summary_line text_record
   \<and> summary_line text_record = str ''~ Modified text: \"a\" '' @ arrow_right @ str '' \"b\"''"
proof -
  have a: "action text_record \<in> set unlocated_actions"
    by (simp add: text_record_def unlocated_actions_def mk_diff_def)
  have b: "action text_record \<notin> set located_actions"
    by (simp add: text_record_def located_actions_def mk_diff_def str_def)
  have c: "summary_line text_record = str ''~ Modified text: \"a\" '' @ arrow_right @ str '' \"b\"''"
    by (simp add: text_record_def summary_line_def mk_diff_def str_def tpl_def)
  from a b c C10_summary_without_path [of text_record "Some (str ''/BODY[7]/DIV[3]'')"]
  show ?thesis by simp
qed

section \<open>Identity\<close>

lemma map_set_keys: "fst ` set (map_set m k v) = insert k (fst ` set m)"
  by (induction m k v rule: map_set.induct) auto

lemma map_set_distinct: "distinct (map fst m) \<Longrightarrow> distinct (map fst (map_set m k v))"
proof (induction m k v rule: map_set.induct)
  case (1 k v) then show ?case by simp
next
  case (2 k' v' m k v)
  then show ?case using map_set_keys [of m k v] by (auto simp add: image_iff)
qed

lemma foldl_map_set_distinct:
  "distinct (map fst m) \<Longrightarrow> distinct (map fst (foldl (\<lambda>m (k, v). map_set m k v) m es))"
  by (induction es arbitrary: m) (auto simp add: map_set_distinct split: prod.splits)

lemma new_Map_distinct: "distinct (map fst (new_Map es))"
  by (simp add: new_Map_def foldl_map_set_distinct)

lemma added_modified_same:
  "\<forall>(k, v) \<in> set m2. map_of m1 k = Some v \<Longrightarrow> added_modified p tag m1 m2 = []"
  by (induction m2) (auto simp add: map_has_def map_get_def)

lemma removed_same:
  "\<forall>(k, v) \<in> set m1. map_of m2 k \<noteq> None \<Longrightarrow> removed p tag m2 m1 = []"
  by (induction m1) (auto simp add: map_has_def)

lemma attrs_identity:
  "added_modified p tag (new_Map es) (new_Map es) = [] \<and> removed p tag (new_Map es) (new_Map es) = []"
proof -
  have "\<forall>(k, v) \<in> set (new_Map es). map_of (new_Map es) k = Some v"
    using new_Map_distinct [of es] by auto
  then show ?thesis
    using added_modified_same [of "new_Map es" "new_Map es"] removed_same [of "new_Map es" "new_Map es"]
    by fastforce
qed

lemma children_identity:
  "(\<And>c q. c \<in> set cs \<Longrightarrow> extractStructuralDifferences c c q = []) \<Longrightarrow> compare_children p tag i cs cs = []"
  by (induction cs arbitrary: i) simp_all

lemma compare_with_itself: "extractStructuralDifferences t t p = []"
proof (induction t arbitrary: p)
  case (Element tag attrs cs)
  then show ?case
    by (simp add: extractStructuralDifferences.simps Let_def attrs_identity children_identity)
qed (simp_all add: extractStructuralDifferences.simps)

text \<open>
  C4. A tree compared with itself gives no record.
\<close>

theorem C4_identity: "extractStructuralDifferences t t [] = []"
  by (rule compare_with_itself)

theorem C4_identity_witness:
  "extractStructuralDifferences link_B link_B [] = []
   \<and> extractStructuralDifferences list_B list_B [] = []"
  using C4_identity [of link_B] C4_identity [of list_B] by simp

section \<open>Count and summary of a result\<close>

lemma split_nl_app: "10 \<notin> set l \<Longrightarrow> split_nl cur (l @ 10 # rest) = (cur @ l) # split_nl [] rest"
  by (induction l arbitrary: cur) auto

lemma split_nl_plain: "10 \<notin> set l \<Longrightarrow> split_nl cur l = [cur @ l]"
  by (induction l arbitrary: cur) auto

lemma split_join: "ls \<noteq> [] \<Longrightarrow> \<forall>l \<in> set ls. 10 \<notin> set l \<Longrightarrow> split_nl [] (join_nl ls) = ls"
proof (induction ls rule: join_nl.induct)
  case 1 then show ?case by simp
next
  case (2 l) then show ?case by (simp add: split_nl_plain)
next
  case (3 l m ls)
  then show ?case using split_nl_app [of l "[]" "join_nl (m # ls)"] by simp
qed

lemma join_nl_empty: "join_nl ls = [] \<Longrightarrow> \<forall>l \<in> set ls. l \<noteq> [] \<Longrightarrow> ls = []"
  by (induction ls rule: join_nl.induct) auto

lemma lines_of_join:
  assumes "\<forall>l \<in> set ls. l \<noteq> [] \<and> 10 \<notin> set l"
  shows "lines_of (join_nl ls) = ls"
proof (cases "ls = []")
  case True
  then show ?thesis by (simp add: lines_of_def)
next
  case False
  with assms have "join_nl ls \<noteq> []" using join_nl_empty [of ls] by blast
  moreover from False assms have "split_nl [] (join_nl ls) = ls" by (simp add: split_join)
  ultimately show ?thesis by (simp add: lines_of_def)
qed

lemma summary_line_nonempty: "summary_line d \<noteq> []"
  by (simp add: summary_line_def str_def arrow_both_def)

text \<open>
  C5, as the claim states it, fails: a record whose text holds a newline is rendered over
  two lines of the summary. Adding a paragraph with the text a, newline, b to an empty
  body gives one record and a summary of two lines.
\<close>

theorem C5_count_consistency_counterexample:
  "count (extractDiff body_of_two_lines html_empty html_two_lines) = 1
   \<and> lines_of (summary (extractDiff body_of_two_lines html_empty html_two_lines)) =
       [str ''+ Added: <P>: \"a'', str ''b\" at /BODY[0]'']
   \<and> length (lines_of (summary (extractDiff body_of_two_lines html_empty html_two_lines)))
       \<noteq> count (extractDiff body_of_two_lines html_empty html_two_lines)"
  by (simp add: extractDiff_def Let_def body_of_two_lines_def html_empty_def html_two_lines_def
      page_empty_def page_two_lines_def eval_defs generateDiffSummary_def summaryParts_def
      summary_line_def content_suffix_def lines_of_def)

text \<open>
  C5, amended. The count of a result is the length of its record list; the summary is the
  rendered strings of the records, one for each record and in their order, joined by
  newlines; no rendered string is empty; and when no rendered string holds a newline, the
  lines of the summary are exactly the rendered strings.
\<close>

theorem C5_count_consistency:
  "count (extractDiff body_of h1 h2) = length (diffs (extractDiff body_of h1 h2))
   \<and> summary (extractDiff body_of h1 h2) =
       join_nl (map summary_line (diffs (extractDiff body_of h1 h2)))
   \<and> (\<forall>d \<in> set (diffs (extractDiff body_of h1 h2)). summary_line d \<noteq> [])
   \<and> ((\<forall>d \<in> set (diffs (extractDiff body_of h1 h2)). 10 \<notin> set (summary_line d)) \<longrightarrow>
        lines_of (summary (extractDiff body_of h1 h2)) =
          map summary_line (diffs (extractDiff body_of h1 h2)))"
  using lines_of_join [of "map summary_line (diffs (extractDiff body_of h1 h2))"]
  by (simp add: extractDiff_def Let_def generateDiffSummary_def summaryParts_def
      summary_line_nonempty)

theorem C5_count_consistency_witness:
  "diffs (extractDiff body_of_pages html_A html_B) \<noteq> []
   \<and> 10 \<notin> set (summary_line (hd (diffs (extractDiff body_of_pages html_A html_B))))
   \<and> length (diffs (extractDiff body_of_pages html_A html_B)) = 1
   \<and> count (extractDiff body_of_pages html_A html_B) = 1
   \<and> lines_of (summary (extractDiff body_of_pages html_A html_B)) =
       [str ''+ Added: <P>: \"New paragraph\" at /BODY[1]'']"
proof -
  have ds: "diffs (extractDiff body_of_pages html_A html_B) =
        [\<lparr>action = str ''addElement'', element = Some (str ''P''),
           content = Some (str ''New paragraph''), oldValue = None, newValue = None,
           path = Some (str ''/BODY[1]'')\<rparr>]"
    by (simp add: extractDiff_def Let_def body_of_pages_def html_A_def html_B_def
        page_A_def page_B_def eval_defs)
  have ln: "summary_line \<lparr>action = str ''addElement'', element = Some (str ''P''),
           content = Some (str ''New paragraph''), oldValue = None, newValue = None,
           path = Some (str ''/BODY[1]'')\<rparr> = str ''+ Added: <P>: \"New paragraph\" at /BODY[1]''"
    by (simp add: summary_line_def content_suffix_def tpl_def str_def)
  have nl: "10 \<notin> set (str ''+ Added: <P>: \"New paragraph\" at /BODY[1]'')"
    by (simp add: str_def)
  note res = C5_count_consistency [of body_of_pages html_A html_B]
  have q: "\<forall>d \<in> set (diffs (extractDiff body_of_pages html_A html_B)). 10 \<notin> set (summary_line d)"
    using ds ln nl by simp
  with res have "lines_of (summary (extractDiff body_of_pages html_A html_B)) =
      map summary_line (diffs (extractDiff body_of_pages html_A html_B))"
    by blast
  with ds ln have l: "lines_of (summary (extractDiff body_of_pages html_A html_B)) =
      [str ''+ Added: <P>: \"New paragraph\" at /BODY[1]'']"
    by simp
  from res have "count (extractDiff body_of_pages html_A html_B) =
      length (diffs (extractDiff body_of_pages html_A html_B))"
    by blast
  with ds have c: "count (extractDiff body_of_pages html_A html_B) = 1"
    by simp
  from ds have n: "diffs (extractDiff body_of_pages html_A html_B) \<noteq> []"
    by simp
  from ds ln nl
  have h: "10 \<notin> set (summary_line (hd (diffs (extractDiff body_of_pages html_A html_B))))"
    by simp
  from ds have k: "length (diffs (extractDiff body_of_pages html_A html_B)) = 1"
    by simp
  from n h k c l show ?thesis by blast
qed

section \<open>Unknown actions in the summary\<close>

lemma length_split_nl: "length (split_nl cur s) = Suc (newlines s)"
  by (induction s arbitrary: cur) (simp_all add: newlines_def)

lemma newlines_append: "newlines (s @ t) = newlines s + newlines t"
  by (induction s) (simp_all add: newlines_def)

lemma newlines_join:
  "ls \<noteq> [] \<Longrightarrow> Suc (newlines (join_nl ls)) = length ls + sum_list (map newlines ls)"
proof (induction ls rule: join_nl.induct)
  case 1 then show ?case by simp
next
  case (2 l) then show ?case by simp
next
  case (3 l m ls)
  then show ?case by (simp add: newlines_append) (simp add: newlines_def)
qed

lemma length_lines_of_join:
  assumes "\<forall>l \<in> set ls. l \<noteq> []"
  shows "length (lines_of (join_nl ls)) = length ls + sum_list (map newlines ls)"
proof (cases "ls = []")
  case True
  then show ?thesis by (simp add: lines_of_def)
next
  case False
  with assms have "join_nl ls \<noteq> []" using join_nl_empty [of ls] by blast
  then show ?thesis using False newlines_join [of ls] by (simp add: lines_of_def length_split_nl)
qed

lemma join_nl_contains: "i < length ls \<Longrightarrow> \<exists>pre post. join_nl ls = pre @ ls ! i @ post"
proof (induction ls arbitrary: i rule: join_nl.induct)
  case 1 then show ?case by simp
next
  case (2 l)
  then have "join_nl [l] = [] @ [l] ! i @ []" by simp
  then show ?case by blast
next
  case (3 l m ls)
  show ?case
  proof (cases i)
    case 0
    then have "join_nl (l # m # ls) = [] @ (l # m # ls) ! i @ ([10] @ join_nl (m # ls))" by simp
    then show ?thesis by blast
  next
    case (Suc j)
    with "3.prems" have "j < length (m # ls)" by simp
    then obtain pre post where "join_nl (m # ls) = pre @ (m # ls) ! j @ post"
      using "3.IH" [of j] by blast
    with Suc have "join_nl (l # m # ls) = (l @ [10] @ pre) @ (l # m # ls) ! i @ post" by simp
    then show ?thesis by blast
  qed
qed

lemma unknown_line:
  "action d \<notin> set recognized_actions \<Longrightarrow> summary_line d = str ''? Unknown action: '' @ action d"
  by (simp add: recognized_actions_def summary_line_def)

text \<open>
  C9, as the claim states it, fails in its last part: a record does not always contribute
  exactly one line. Removing the paragraph with the text a, newline, b from a body gives
  one record, and the summary of that one record has two lines.
\<close>

theorem C9_unknown_action_counterexample:
  "length (extractStructuralDifferences page_two_lines page_empty []) = 1
   \<and> lines_of (generateDiffSummary (extractStructuralDifferences page_two_lines page_empty [])) =
       [str ''- Removed: <P>: \"a'', str ''b\" at /BODY[0]'']
   \<and> length (lines_of (generateDiffSummary
          (extractStructuralDifferences page_two_lines page_empty [])))
       \<noteq> length (extractStructuralDifferences page_two_lines page_empty [])"
  by (simp add: page_empty_def page_two_lines_def eval_defs generateDiffSummary_def
      summaryParts_def summary_line_def content_suffix_def lines_of_def)

text \<open>
  C9, amended. \<open>generateDiffSummary\<close> renders every record, recognized or not, in the
  order of the records and joins the renderings by newlines; it drops none. The number of
  lines of the summary is the number of records plus the number of newlines inside the
  renderings. The rendering of a record whose action is none of the eight known values is
  ? Unknown action: followed by the action, and it occurs in the summary. When no
  rendering holds a newline, the summary has exactly one line for each record, and the
  line of a record with an unknown action is its unknown-action line.
\<close>

theorem C9_unknown_action:
  "generateDiffSummary ds = join_nl (map summary_line ds)
   \<and> length (lines_of (generateDiffSummary ds)) =
       length ds + sum_list (map (\<lambda>d. newlines (summary_line d)) ds)
   \<and> (\<forall>i < length ds. action (ds ! i) \<notin> set recognized_actions \<longrightarrow>
        (\<exists>pre post. generateDiffSummary ds =
           pre @ (str ''? Unknown action: '' @ action (ds ! i)) @ post))
   \<and> ((\<forall>d \<in> set ds. 10 \<notin> set (summary_line d)) \<longrightarrow>
        lines_of (generateDiffSummary ds) = map summary_line ds
        \<and> length (lines_of (generateDiffSummary ds)) = length ds
        \<and> (\<forall>i < length ds. action (ds ! i) \<notin> set recognized_actions \<longrightarrow>
             lines_of (generateDiffSummary ds) ! i =
               str ''? Unknown action: '' @ action (ds ! i)))"
proof (intro conjI allI impI)
  show g: "generateDiffSummary ds = join_nl (map summary_line ds)"
    by (simp add: generateDiffSummary_def summaryParts_def)
  show "length (lines_of (generateDiffSummary ds)) =
       length ds + sum_list (map (\<lambda>d. newlines (summary_line d)) ds)"
    using length_lines_of_join [of "map summary_line ds"]
    by (simp add: g summary_line_nonempty comp_def)
next
  fix i assume i: "i < length ds" and u: "action (ds ! i) \<notin> set recognized_actions"
  from i obtain pre post where "join_nl (map summary_line ds) = pre @ map summary_line ds ! i @ post"
    using join_nl_contains [of i "map summary_line ds"] by auto
  with i u have "generateDiffSummary ds = pre @ (str ''? Unknown action: '' @ action (ds ! i)) @ post"
    by (simp add: generateDiffSummary_def summaryParts_def unknown_line)
  then show "\<exists>pre post. generateDiffSummary ds =
           pre @ (str ''? Unknown action: '' @ action (ds ! i)) @ post" by blast
next
  assume nl: "\<forall>d \<in> set ds. 10 \<notin> set (summary_line d)"
  then show l: "lines_of (generateDiffSummary ds) = map summary_line ds"
    using lines_of_join [of "map summary_line ds"]
    by (simp add: generateDiffSummary_def summaryParts_def summary_line_nonempty)
  then show "length (lines_of (generateDiffSummary ds)) = length ds" by simp
  fix i assume "i < length ds" and "action (ds ! i) \<notin> set recognized_actions"
  with l show "lines_of (generateDiffSummary ds) ! i = str ''? Unknown action: '' @ action (ds ! i)"
    by (simp add: unknown_line)
qed

theorem C9_unknown_action_witness:
  "action unknown_record \<notin> set recognized_actions
   \<and> 10 \<notin> set (summary_line text_record)
   \<and> 10 \<notin> set (summary_line unknown_record)
   \<and> lines_of (generateDiffSummary [text_record, unknown_record]) =
       [str ''~ Modified text: \"a\" '' @ arrow_right @ str '' \"b\"'',
        str ''? Unknown action: moveElement'']
   \<and> lines_of (generateDiffSummary [text_record, unknown_record]) ! 1 =
        str ''? Unknown action: moveElement''"
proof -
  have a: "action unknown_record \<notin> set recognized_actions"
    by (simp add: unknown_record_def recognized_actions_def mk_diff_def str_def)
  have t: "summary_line text_record = str ''~ Modified text: \"a\" '' @ arrow_right @ str '' \"b\"''"
    by (simp add: text_record_def summary_line_def mk_diff_def str_def tpl_def)
  have u: "summary_line unknown_record = str ''? Unknown action: moveElement''"
    by (simp add: unknown_record_def summary_line_def mk_diff_def str_def)
  have nt: "10 \<notin> set (summary_line text_record)"
    by (simp add: t str_def arrow_right_def)
  have nu: "10 \<notin> set (summary_line unknown_record)"
    by (simp add: u str_def)
  from nt nu have "\<forall>d \<in> set [text_record, unknown_record]. 10 \<notin> set (summary_line d)"
    by simp
  with C9_unknown_action [of "[text_record, unknown_record]"]
  have "lines_of (generateDiffSummary [text_record, unknown_record]) =
      map summary_line [text_record, unknown_record]"
    by blast
  with t u have l: "lines_of (generateDiffSummary [text_record, unknown_record]) =
       [str ''~ Modified text: \"a\" '' @ arrow_right @ str '' \"b\"'',
        str ''? Unknown action: moveElement'']"
    by simp
  then have "lines_of (generateDiffSummary [text_record, unknown_record]) ! 1 =
        str ''? Unknown action: moveElement''"
    by simp
  with a nt nu l show ?thesis by blast
qed

section \<open>Paths\<close>









end
